theory Spec2Isabelle
  imports Main
begin

section \<open>Strings of the page script\<close>

text \<open>
  The chat page (\<^verbatim>\<open>src/index.tsx\<close>) is one script: five module-level variables, a few
  functions that append messages to the chat container, and two event listeners. Text is
  modelled as \<^typ>\<open>string\<close>, one \<^typ>\<open>char\<close> per code unit (the code units below 256).

  \<^verbatim>\<open>String.prototype.trim\<close> removes white space and line terminators at both ends; among
  the code units below 256 these are tab, line feed, vertical tab, form feed, carriage
  return, space and the no-break space.
\<close>

definition js_whitespace :: "char \<Rightarrow> bool" where
  "js_whitespace c =
     (c = CHR 0x09 \<or> c = CHR 0x0A \<or> c = CHR 0x0B \<or> c = CHR 0x0C \<or> c = CHR 0x0D
      \<or> c = CHR 0x20 \<or> c = CHR 0xA0)"

definition js_trim :: "string \<Rightarrow> string" where
  "js_trim s = rev (dropWhile js_whitespace (rev (dropWhile js_whitespace s)))"

text \<open>The opening and the closing fence, \<^verbatim>\<open>```json\<close> and \<^verbatim>\<open>```\<close>.\<close>

definition fence :: string where
  "fence = [CHR 0x60, CHR 0x60, CHR 0x60]"

definition fence_json :: string where
  "fence_json = fence @ ''json''"

text \<open>
  \<^verbatim>\<open>.replace(/^```json\n?/, '')\<close>: a leading \<^verbatim>\<open>```json\<close> is removed, with the line feed
  after it when there is one.
\<close>

definition strip_open :: "string \<Rightarrow> string" where
  "strip_open s =
     (if take (length fence_json) s = fence_json
      then (case drop (length fence_json) s of
              c # r \<Rightarrow> if c = CHR 0x0A then r else c # r
            | [] \<Rightarrow> [])
      else s)"

text \<open>\<^verbatim>\<open>.replace(/```$/, '')\<close>: three backquotes at the very end of the text are removed.\<close>

definition strip_close :: "string \<Rightarrow> string" where
  "strip_close s =
     (if length fence \<le> length s \<and> drop (length s - length fence) s = fence
      then take (length s - length fence) s
      else s)"

section \<open>JSON.parse\<close>

text \<open>
  \<^verbatim>\<open>getPersonaResponse\<close> hands the stripped reply to the platform's \<^verbatim>\<open>JSON.parse\<close>, which
  either returns a value or throws a \<^verbatim>\<open>SyntaxError\<close>. The parser below accepts the JSON
  grammar (ECMA-404): white space is space, tab, line feed and carriage return; a text is
  one value. A string value is the list of its code units with the escapes decoded (a
  \<^verbatim>\<open>\u\<close> escape can name a code unit from 256 on, so a unit is a number). An object
  is the list of its members, each name once: a repeated name keeps its place and takes
  the last value (the order in which the platform enumerates the names is not modelled;
  the script never enumerates). A number is kept as its digits, not converted to a
  double: the script only passes the parsed value on.
\<close>

datatype json =
    JNull
  | JBool bool
  | JNumber string
  | JString "nat list"
  | JArray "json list"
  | JObject "(nat list \<times> json) list"

text \<open>The code units of a text of the script.\<close>

definition units :: "string \<Rightarrow> nat list" where
  "units s = map of_char s"

datatype token = TLBrace | TRBrace | TLBrack | TRBrack | TColon | TComma | TAtom json

definition json_ws :: "char \<Rightarrow> bool" where
  "json_ws c = (c = CHR 0x20 \<or> c = CHR 0x09 \<or> c = CHR 0x0A \<or> c = CHR 0x0D)"

definition is_digit :: "char \<Rightarrow> bool" where
  "is_digit c = (c \<in> set ''0123456789'')"

definition is_hex :: "char \<Rightarrow> bool" where
  "is_hex c = (is_digit c \<or> c \<in> set ''abcdefABCDEF'')"

text \<open>What an escape stands for: the character after the backslash, or four hex digits.\<close>

definition unescape :: "char \<Rightarrow> nat" where
  "unescape e =
     (if e = CHR ''b'' then 8 else if e = CHR ''f'' then 12 else if e = CHR ''n'' then 10
      else if e = CHR ''r'' then 13 else if e = CHR ''t'' then 9 else of_char e)"

definition hex_value :: "char \<Rightarrow> nat" where
  "hex_value c =
     (if is_digit c then of_char c - 48
      else if c \<in> set ''abcdef'' then of_char c - 87
      else of_char c - 55)"

text \<open>
  The characters of a string after its opening quote: the code units up to the closing
  quote, and the rest of the input. A control character, an unknown escape and a missing
  closing quote are syntax errors.
\<close>

fun scan_string :: "string \<Rightarrow> (nat list \<times> string) option" where
  "scan_string [] = None"
| "scan_string (c # cs) =
     (if c = CHR 0x22 then Some ([], cs)
      else if c = CHR 0x5C then
        (case cs of
           [] \<Rightarrow> None
         | e # r \<Rightarrow>
             if e \<in> set [CHR 0x22, CHR 0x5C, CHR ''/'', CHR ''b'', CHR ''f'', CHR ''n'', CHR ''r'', CHR ''t'']
             then map_option (\<lambda>(b, rest). (unescape e # b, rest)) (scan_string r)
             else if e = CHR ''u'' then
               (case r of
                  h1 # h2 # h3 # h4 # r' \<Rightarrow>
                    if is_hex h1 \<and> is_hex h2 \<and> is_hex h3 \<and> is_hex h4
                    then map_option
                           (\<lambda>(b, rest).
                              ((((hex_value h1 * 16 + hex_value h2) * 16 + hex_value h3) * 16
                                + hex_value h4) # b, rest))
                           (scan_string r')
                    else None
                | _ \<Rightarrow> None)
             else None)
      else if of_char c < (32 :: nat) then None
      else map_option (\<lambda>(b, rest). (of_char c # b, rest)) (scan_string cs))"

text \<open>
  A number is \<^verbatim>\<open>-? (0 | [1-9][0-9]*) (. [0-9]+)? ([eE] [+-]? [0-9]+)?\<close>. The three checks
  below follow the three parts; each takes what is left of the lexeme.
\<close>

definition digits1 :: "string \<Rightarrow> string option" where
  "digits1 s = (if s \<noteq> [] \<and> is_digit (hd s) then Some (dropWhile is_digit s) else None)"

definition number_int :: "string \<Rightarrow> string option" where
  "number_int s =
     (case (if s \<noteq> [] \<and> hd s = CHR ''-'' then tl s else s) of
        [] \<Rightarrow> None
      | d # r \<Rightarrow> if d = CHR ''0'' then Some r
                 else if is_digit d then Some (dropWhile is_digit r)
                 else None)"

definition number_frac :: "string \<Rightarrow> string option" where
  "number_frac s =
     (case s of
        c # r \<Rightarrow> if c = CHR ''.'' then digits1 r else Some s
      | [] \<Rightarrow> Some [])"

definition number_exp :: "string \<Rightarrow> string option" where
  "number_exp s =
     (case s of
        c # r \<Rightarrow>
          if c = CHR ''e'' \<or> c = CHR ''E''
          then digits1 (if r \<noteq> [] \<and> (hd r = CHR ''+'' \<or> hd r = CHR ''-'') then tl r else r)
          else Some s
      | [] \<Rightarrow> Some [])"

definition valid_number :: "string \<Rightarrow> bool" where
  "valid_number s =
     (case number_int s of
        None \<Rightarrow> False
      | Some r1 \<Rightarrow>
          (case number_frac r1 of
             None \<Rightarrow> False
           | Some r2 \<Rightarrow> number_exp r2 = Some []))"

definition number_char :: "char \<Rightarrow> bool" where
  "number_char c =
     (is_digit c \<or> c = CHR ''-'' \<or> c = CHR ''+'' \<or> c = CHR ''.'' \<or> c = CHR ''e'' \<or> c = CHR ''E'')"

text \<open>
  The tokens of a text. A number token is the longest run of number characters, which
  must be a number; two values that touch are two tokens, which no JSON text allows next
  to each other, so the parser below rejects them as \<^verbatim>\<open>JSON.parse\<close> does. After a
  string the input goes on at the rest that \<open>scan_string\<close> returns, written as the
  input without the characters read (\<open>scan_string_rest\<close> below: they are the same),
  so that every call of \<open>lex\<close> is on a shorter text.
\<close>

function lex :: "string \<Rightarrow> token list option" where
  "lex [] = Some []"
| "lex (c # cs) =
     (if json_ws c then lex cs
      else if c = CHR ''{'' then map_option ((#) TLBrace) (lex cs)
      else if c = CHR ''}'' then map_option ((#) TRBrace) (lex cs)
      else if c = CHR ''['' then map_option ((#) TLBrack) (lex cs)
      else if c = CHR '']'' then map_option ((#) TRBrack) (lex cs)
      else if c = CHR '':'' then map_option ((#) TColon) (lex cs)
      else if c = CHR '','' then map_option ((#) TComma) (lex cs)
      else if c = CHR 0x22 then
        (case scan_string cs of
           None \<Rightarrow> None
         | Some (b, rest) \<Rightarrow> map_option ((#) (TAtom (JString b))) (lex (drop (length cs - length rest) cs)))
      else if c = CHR ''-'' \<or> is_digit c then
        (if valid_number (c # takeWhile number_char cs)
         then map_option ((#) (TAtom (JNumber (c # takeWhile number_char cs)))) (lex (dropWhile number_char cs))
         else None)
      else if take 4 (c # cs) = ''true'' then map_option ((#) (TAtom (JBool True))) (lex (drop 3 cs))
      else if take 5 (c # cs) = ''false'' then map_option ((#) (TAtom (JBool False))) (lex (drop 4 cs))
      else if take 4 (c # cs) = ''null'' then map_option ((#) (TAtom JNull)) (lex (drop 3 cs))
      else None)"
  by pat_completeness auto
termination
  by (relation "measure length") (auto simp: less_Suc_eq_le length_dropWhile_le)

text \<open>
  The parser is a pushdown automaton over the tokens. A frame of the stack is an open
  array with the elements read so far, an open object with its members, or an open object
  with the key whose value is being read (all latest first). \<open>put\<close> adds a member: a
  name that is there already keeps its place and takes the new value.
\<close>

datatype frame =
    FArr "json list"
  | FObj "(nat list \<times> json) list"
  | FKey "(nat list \<times> json) list" "nat list"

definition put :: "nat list \<Rightarrow> json \<Rightarrow> (nat list \<times> json) list \<Rightarrow> (nat list \<times> json) list" where
  "put k v ms =
     (if k \<in> set (map fst ms)
      then map (\<lambda>(k', v'). if k' = k then (k', v) else (k', v')) ms
      else (k, v) # ms)"

datatype mode = Val | ValOrClose | KeyOrClose | Key | Colon | Got json

definition start_value :: "token \<Rightarrow> frame list \<Rightarrow> (mode \<times> frame list) option" where
  "start_value t st =
     (case t of
        TAtom a \<Rightarrow> Some (Got a, st)
      | TLBrack \<Rightarrow> Some (ValOrClose, FArr [] # st)
      | TLBrace \<Rightarrow> Some (KeyOrClose, FObj [] # st)
      | _ \<Rightarrow> None)"

definition read_key :: "token \<Rightarrow> frame list \<Rightarrow> (mode \<times> frame list) option" where
  "read_key t st =
     (case (t, st) of
        (TAtom (JString k), FObj ms # st') \<Rightarrow> Some (Colon, FKey ms k # st')
      | _ \<Rightarrow> None)"

definition pda_step :: "mode \<Rightarrow> frame list \<Rightarrow> token \<Rightarrow> (mode \<times> frame list) option" where
  "pda_step m st t =
     (case m of
        Val \<Rightarrow> start_value t st
      | ValOrClose \<Rightarrow>
          (case (t, st) of
             (TRBrack, FArr vs # st') \<Rightarrow> Some (Got (JArray (rev vs)), st')
           | _ \<Rightarrow> start_value t st)
      | KeyOrClose \<Rightarrow>
          (case (t, st) of
             (TRBrace, FObj ms # st') \<Rightarrow> Some (Got (JObject (rev ms)), st')
           | _ \<Rightarrow> read_key t st)
      | Key \<Rightarrow> read_key t st
      | Colon \<Rightarrow> (case t of TColon \<Rightarrow> Some (Val, st) | _ \<Rightarrow> None)
      | Got v \<Rightarrow>
          (case (st, t) of
             (FArr vs # st', TComma) \<Rightarrow> Some (Val, FArr (v # vs) # st')
           | (FArr vs # st', TRBrack) \<Rightarrow> Some (Got (JArray (rev (v # vs))), st')
           | (FKey ms k # st', TComma) \<Rightarrow> Some (Key, FObj (put k v ms) # st')
           | (FKey ms k # st', TRBrace) \<Rightarrow> Some (Got (JObject (rev (put k v ms))), st')
           | _ \<Rightarrow> None))"

fun pda :: "mode \<Rightarrow> frame list \<Rightarrow> token list \<Rightarrow> json option" where
  "pda m st [] = (case (m, st) of (Got v, []) \<Rightarrow> Some v | _ \<Rightarrow> None)"
| "pda m st (t # ts) =
     (case pda_step m st t of
        None \<Rightarrow> None
      | Some (m', st') \<Rightarrow> pda m' st' ts)"

definition JSON_parse :: "string \<Rightarrow> json option" where
  "JSON_parse s = (case lex s of None \<Rightarrow> None | Some ts \<Rightarrow> pda Val [] ts)"


section \<open>What the remote service answers\<close>

text \<open>
  The script awaits three calls of the \<^verbatim>\<open>@google/genai\<close> client. Each call either rejects
  (\<open>Rejected\<close>: the \<^verbatim>\<open>catch\<close> branch runs) or resolves with a response. The handlers
  below take the outcome of the call they await as an argument and run to their end: one
  call is outstanding at a time, and the next event is handled after the call has
  settled.
\<close>

datatype 'a outcome = Rejected | Resolved 'a

text \<open>
  \<^verbatim>\<open>interface PersonaResponse { isValidRequest: boolean; botResponse: string; }\<close>
\<close>

record PersonaResponse =
  isValidRequest :: bool
  botResponse :: string

text \<open>
  A response of \<^verbatim>\<open>generateImages\<close> has \<^verbatim>\<open>generatedImages\<close> or not (\<open>None\<close>); an entry
  has an \<^verbatim>\<open>image\<close> or not (\<open>NoImage\<close>), and an image has \<^verbatim>\<open>imageBytes\<close> or not. Every
  one of these fields is optional in the client's types, and the script reads them
  without a check.
\<close>

datatype generated_image = NoImage | Image "string option"

type_synonym images_response = "generated_image list option"

text \<open>
  A part of a \<^verbatim>\<open>generateContent\<close> response: one without \<^verbatim>\<open>inlineData\<close> (text, say), or
  \<^verbatim>\<open>inlineData\<close> with its \<^verbatim>\<open>mimeType\<close> and \<^verbatim>\<open>data\<close>, each there or not. A response has
  \<^verbatim>\<open>candidates\<close> or not; a candidate is read through \<^verbatim>\<open>content.parts\<close>, and is \<open>None\<close>
  when it has no \<^verbatim>\<open>content\<close> or its content has no \<^verbatim>\<open>parts\<close> (a blocked reply, say).
\<close>

datatype part = TextPart string | InlineData "string option" "string option"

type_synonym candidate = "part list option"

type_synonym response = "candidate list option"

text \<open>The requests sent, in order: the \<^verbatim>\<open>contents\<close> or \<^verbatim>\<open>prompt\<close> of each call.\<close>

datatype request =
    Classify string
  | GenerateImages string
  | GenerateContent string string

section \<open>getPersonaResponse\<close>

text \<open>
  \<^verbatim>\<open>
  const jsonStr = response.text.trim().replace(/^```json\n?/, '').replace(/```$/, '');
  const jsonResponse = JSON.parse(jsonStr);
  return jsonResponse as PersonaResponse;
  \<close>
  inside a \<^verbatim>\<open>try\<close> whose \<^verbatim>\<open>catch\<close> throws
  \<^verbatim>\<open>new Error("Could not process the prompt with the persona.")\<close>. The reply's \<^verbatim>\<open>text\<close> can
  be undefined (\<open>None\<close>), and then \<^verbatim>\<open>.trim()\<close> throws. The cast at the end is a type
  annotation: it checks nothing when the script runs, so the function returns whatever value was
  parsed.
\<close>

datatype error = Error string

definition persona_error :: error where
  "persona_error = Error ''Could not process the prompt with the persona.''"

definition getPersonaResponse :: "string option outcome \<Rightarrow> error + json" where
  "getPersonaResponse reply =
     (case reply of
        Rejected \<Rightarrow> Inl persona_error
      | Resolved None \<Rightarrow> Inl persona_error
      | Resolved (Some text) \<Rightarrow>
          (case JSON_parse (strip_close (strip_open (js_trim text))) of
             None \<Rightarrow> Inl persona_error
           | Some jsonResponse \<Rightarrow> Inr jsonResponse))"

text \<open>
  The caller reads the two fields of the value returned. \<open>as_PersonaResponse\<close> is the
  value seen at the declared type: an object whose \<^verbatim>\<open>isValidRequest\<close> is a boolean and
  whose \<^verbatim>\<open>botResponse\<close> is a string. A value of another shape has no reading at that
  type; nor has, in this model, a \<^verbatim>\<open>botResponse\<close> with a code unit from 256 on, which
  is not a text of the script as modelled here.
\<close>

definition field :: "string \<Rightarrow> (nat list \<times> json) list \<Rightarrow> json option" where
  "field k ms = map_of ms (units k)"

definition text_of :: "nat list \<Rightarrow> string option" where
  "text_of us = (if list_all (\<lambda>u. u < 256) us then Some (map char_of us) else None)"

definition as_PersonaResponse :: "json \<Rightarrow> PersonaResponse option" where
  "as_PersonaResponse j =
     (case j of
        JObject ms \<Rightarrow>
          (case (field ''isValidRequest'' ms, field ''botResponse'' ms) of
             (Some (JBool v), Some (JString b)) \<Rightarrow>
               map_option (\<lambda>t. \<lparr>isValidRequest = v, botResponse = t\<rparr>) (text_of b)
           | _ \<Rightarrow> None)
      | _ \<Rightarrow> None)"

text \<open>
  What \<^verbatim>\<open>await getPersonaResponse(prompt)\<close> gives \<^verbatim>\<open>handleUserPrompt\<close>, for a reply of
  the declared shape: the error thrown, or the two fields.
\<close>

definition persona_outcome :: "string option outcome \<Rightarrow> PersonaResponse outcome option" where
  "persona_outcome reply =
     (case getPersonaResponse reply of
        Inl e \<Rightarrow> Some Rejected
      | Inr j \<Rightarrow> map_option Resolved (as_PersonaResponse j))"

section \<open>The page and the module state\<close>

text \<open>
  The chat container is the list of its message elements, oldest first. An element has an
  identity (\<open>mid\<close>, a counter stands for it), the sender's class, its \<^verbatim>\<open>innerHTML\<close> and
  the containers appended to it: a row of buttons, or the image grid of a batch, whose
  item \<open>k\<close> shows image \<open>k\<close> with a vary button carrying \<^verbatim>\<open>data-image-index="k"\<close>.
  A button is its class with its \<^verbatim>\<open>data-style\<close> or \<^verbatim>\<open>data-choice\<close>.

  The HTML of a variation image is kept as its two variable parts, the image data and the
  feedback text of its \<^verbatim>\<open>alt\<close>; the grid keeps the images and the prompt of their
  \<^verbatim>\<open>alt\<close>. Image data is \<open>None\<close> where the script holds \<^verbatim>\<open>null\<close> or undefined. The download names (made from \<^verbatim>\<open>Date.now()\<close>), scrolling and the fullscreen
  viewer are left out: they touch neither the messages nor the module variables.
\<close>

datatype sender = Bot | User

datatype button = StyleButton string | SatisfactionButton string

datatype child = ButtonContainer "button list" | ImageGrid "string option list" string

datatype html = Text string | ImageContainer "string option" string

datatype body = Loader | Inner html

record message =
  mid :: nat
  sender :: sender
  body :: body
  children :: "child list"

text \<open>
  The module variables (\<^verbatim>\<open>isLoading\<close>, \<^verbatim>\<open>lastUserPrompt\<close>, \<^verbatim>\<open>lastGeneratedImage\<close>,
  \<^verbatim>\<open>lastGeneratedImages\<close>, \<^verbatim>\<open>isVariationRequest\<close>), the chat container, the value and the
  \<^verbatim>\<open>disabled\<close> flags of the form's input and button, the requests sent so far, and the
  welcome messages whose timers have not fired yet.
\<close>

record state =
  isLoading :: bool
  lastUserPrompt :: string
  lastGeneratedImage :: "string option"
  lastGeneratedImages :: "string option list"
  isVariationRequest :: bool
  chat :: "message list"
  next_id :: nat
  promptValue :: string
  promptDisabled :: bool
  sendDisabled :: bool
  calls :: "request list"
  timers :: "string list"

text \<open>
  What the service answers to the call that the next event makes, for each kind of call.
  \<open>classify\<close> is what \<^verbatim>\<open>await getPersonaResponse(prompt)\<close> gives its caller, at the type
  the function declares: the parsed reply, or \<open>Rejected\<close> for the error thrown.
\<close>

record gateway =
  classify :: "PersonaResponse outcome"
  images :: "images_response outcome"
  variation :: "response outcome"

definition setLoading :: "bool \<Rightarrow> state \<Rightarrow> state" where
  "setLoading loading s =
     s\<lparr>isLoading := loading, promptDisabled := loading, sendDisabled := loading\<rparr>"

record options =
  opt_isLoading :: bool
  isSatisfactionRequest :: bool
  isStyleRequest :: bool

definition no_options :: options where
  "no_options = \<lparr>opt_isLoading = False, isSatisfactionRequest = False, isStyleRequest = False\<rparr>"

definition style_buttons :: child where
  "style_buttons =
     ButtonContainer [StyleButton ''realistic'', StyleButton ''cartoon'',
                      StyleButton ''digital art'', StyleButton ''cinematic'']"

definition satisfaction_buttons :: child where
  "satisfaction_buttons =
     ButtonContainer [SatisfactionButton ''satisfied'', SatisfactionButton ''variations'',
                      SatisfactionButton ''retry'']"

text \<open>\<^verbatim>\<open>addMessage\<close> appends the element and returns it with the new state.\<close>

definition addMessage :: "html \<Rightarrow> sender \<Rightarrow> options \<Rightarrow> state \<Rightarrow> nat \<times> state" where
  "addMessage text sndr opts s =
     (let messageElement =
            \<lparr>mid = next_id s, sender = sndr,
             body = (if opt_isLoading opts then Loader else Inner text),
             children = (if isStyleRequest opts then [style_buttons] else [])
                        @ (if isSatisfactionRequest opts then [satisfaction_buttons] else [])\<rparr>
      in (next_id s, s\<lparr>chat := chat s @ [messageElement], next_id := Suc (next_id s)\<rparr>))"

text \<open>
  \<^verbatim>\<open>chatContainer.removeChild(loaderMessage)\<close> removes the element when it is a child of
  the container and throws otherwise (\<open>None\<close>). \<open>appendChild\<close> adds a container to an
  element of the chat.
\<close>

definition removeChild :: "nat \<Rightarrow> state \<Rightarrow> state option" where
  "removeChild i s =
     (if list_ex (\<lambda>m. mid m = i) (chat s)
      then Some (s\<lparr>chat := filter (\<lambda>m. mid m \<noteq> i) (chat s)\<rparr>)
      else None)"

definition appendChild :: "nat \<Rightarrow> child \<Rightarrow> state \<Rightarrow> state" where
  "appendChild i c s =
     s\<lparr>chat := map (\<lambda>m. if mid m = i then m\<lparr>children := children m @ [c]\<rparr> else m) (chat s)\<rparr>"

text \<open>A value is falsy in a condition when it is \<^verbatim>\<open>null\<close>, undefined or the empty string.\<close>

fun truthy :: "string option \<Rightarrow> bool" where
  "truthy None = False"
| "truthy (Some v) = (v \<noteq> [])"

text \<open>
  Reading an array at an index: undefined outside \<open>0 \<le> i < length\<close>, and inside what
  the entry holds.
\<close>

definition js_index :: "'a option list \<Rightarrow> int \<Rightarrow> 'a option" where
  "js_index xs i = (if 0 \<le> i \<and> i < int (length xs) then xs ! nat i else None)"


section \<open>generateImage\<close>

text \<open>
  \<^verbatim>\<open>generateImage(prompt)\<close> appends the loader, awaits \<^verbatim>\<open>ai.models.generateImages\<close> and
  then either stores the images that came back (clearing the single image) and shows
  them, or apologises.

  Line 133, \<^verbatim>\<open>response.generatedImages.map(img => img.image.imageBytes)\<close>, throws when the
  response has no \<^verbatim>\<open>generatedImages\<close> and when an entry has no \<^verbatim>\<open>image\<close>; nothing is
  assigned then. An entry whose image has no \<^verbatim>\<open>imageBytes\<close> gives an undefined entry.
\<close>

fun image_bytes :: "generated_image list \<Rightarrow> string option list option" where
  "image_bytes [] = Some []"
| "image_bytes (NoImage # imgs) = None"
| "image_bytes (Image imageBytes # imgs) = map_option ((#) imageBytes) (image_bytes imgs)"

text \<open>
  The \<^verbatim>\<open>catch\<close> branch removes the loader first. When the \<^verbatim>\<open>try\<close> block has removed
  it already (line 131) this second \<^verbatim>\<open>removeChild\<close> throws, nothing catches that, and
  the function ends there with the state as it is.
\<close>

definition generateImage_catch :: "nat \<Rightarrow> state \<Rightarrow> state" where
  "generateImage_catch loaderMessage s =
     (case removeChild loaderMessage s of
        None \<Rightarrow> s
      | Some s1 \<Rightarrow>
          let s2 = s1\<lparr>lastGeneratedImages := [], lastGeneratedImage := None\<rparr>;
              (_, s3) = addMessage (Text ''An error occurred while generating the images. Please try again.'') Bot no_options s2
          in setLoading False s3)"

definition generateImage :: "string \<Rightarrow> images_response outcome \<Rightarrow> state \<Rightarrow> state" where
  "generateImage prompt reply s0 =
     (let (loaderMessage, s1) = addMessage (Text []) Bot (no_options\<lparr>opt_isLoading := True\<rparr>) s0;
          s2 = s1\<lparr>calls := calls s1 @ [GenerateImages prompt]\<rparr>
      in case reply of
           Rejected \<Rightarrow> generateImage_catch loaderMessage s2
         | Resolved response \<Rightarrow>
             (case removeChild loaderMessage s2 of
                None \<Rightarrow> generateImage_catch loaderMessage s2
              | Some s3 \<Rightarrow>
                  (case Option.bind response image_bytes of
                     None \<Rightarrow> generateImage_catch loaderMessage s3
                   | Some imageBytes \<Rightarrow>
                       let s4 = s3\<lparr>lastGeneratedImages := imageBytes, lastGeneratedImage := None\<rparr>
                       in if length (lastGeneratedImages s4) > 0
                          then
                            let gridContainer = ImageGrid (lastGeneratedImages s4) (lastUserPrompt s4);
                                (botMessage, s5) = addMessage (Text []) Bot no_options s4;
                                s6 = appendChild botMessage gridContainer s5;
                                (_, s7) = addMessage (Text ''Here are a few options. Click the wand to request changes to a specific image, or describe a new idea below.'') Bot no_options s6
                            in setLoading False s7
                          else
                            let s5 = s4\<lparr>lastGeneratedImages := []\<rparr>;
                                (_, s6) = addMessage (Text ''Sorry, I couldn't generate any images. Please try a different description.'') Bot no_options s5
                            in setLoading False s6)))"

section \<open>generateImageVariation\<close>

text \<open>
  The loop over the parts of the first candidate:
  \<^verbatim>\<open>
  for (const part of response.candidates[0].content.parts) {
      if (part.inlineData) {
          lastGeneratedImage = part.inlineData.data;
          addMessage(imageContainerHTML, 'bot');
          foundImage = true;
      }
  }
  \<close>
  It has no \<^verbatim>\<open>break\<close>: every part is visited. The pair carried along is \<^verbatim>\<open>foundImage\<close>
  and the state.
\<close>

fun scan_parts :: "string \<Rightarrow> part list \<Rightarrow> bool \<times> state \<Rightarrow> bool \<times> state" where
  "scan_parts feedbackPrompt [] (foundImage, s) = (foundImage, s)"
| "scan_parts feedbackPrompt (TextPart t # ps) (foundImage, s) =
     scan_parts feedbackPrompt ps (foundImage, s)"
| "scan_parts feedbackPrompt (InlineData mimeType base64ImageBytes # ps) (foundImage, s) =
     (let s1 = s\<lparr>lastGeneratedImage := base64ImageBytes\<rparr>;
          (_, s2) = addMessage (ImageContainer base64ImageBytes feedbackPrompt) Bot no_options s1
      in scan_parts feedbackPrompt ps (True, s2))"

text \<open>After the loop (lines 228 to 239): the question, or the apology and the question.\<close>

definition variation_report :: "bool \<times> state \<Rightarrow> state" where
  "variation_report r =
     (case r of
        (foundImage, s) \<Rightarrow>
          if foundImage
          then snd (addMessage (Text ''How does this look? Are you satisfied, or would you like to make more changes?'') Bot (no_options\<lparr>isSatisfactionRequest := True\<rparr>) s)
          else
            let (_, s1) = addMessage (Text ''Sorry, I couldn't generate a variation based on that feedback. Please try describing the change differently.'') Bot no_options s
            in snd (addMessage (Text ''Are you satisfied with the previous image, or would you like to try again?'') Bot (no_options\<lparr>isSatisfactionRequest := True\<rparr>) s1))"

text \<open>
  The \<^verbatim>\<open>catch\<close> branch (lines 240 to 244). As in \<^verbatim>\<open>generateImage\<close>, its \<^verbatim>\<open>removeChild\<close>
  throws when the \<^verbatim>\<open>try\<close> block has removed the loader already (line 205), and the
  function ends there.
\<close>

definition generateImageVariation_catch :: "nat \<Rightarrow> state \<Rightarrow> state" where
  "generateImageVariation_catch loaderMessage s =
     (case removeChild loaderMessage s of
        None \<Rightarrow> s
      | Some s1 \<Rightarrow>
          snd (addMessage (Text ''An error occurred while generating the image variation. Please try again.'') Bot no_options s1))"

text \<open>
  Reading \<^verbatim>\<open>response.candidates[0].content.parts\<close> for the loop throws when the first
  candidate has no content or no parts.
\<close>

definition generateImageVariation :: "string \<Rightarrow> response outcome \<Rightarrow> state \<Rightarrow> state" where
  "generateImageVariation feedbackPrompt reply s0 =
     (if \<not> truthy (lastGeneratedImage s0)
      then
        let (_, s1) = addMessage (Text ''My apologies, I can't find the last image to modify. Please describe a new image.'') Bot no_options s0
        in setLoading False s1
      else
        let s1 = setLoading True s0;
            (loaderMessage, s2) = addMessage (Text []) Bot (no_options\<lparr>opt_isLoading := True\<rparr>) s1;
            s3 = s2\<lparr>calls := calls s2 @ [GenerateContent (the (lastGeneratedImage s2)) feedbackPrompt]\<rparr>
        in case reply of
             Rejected \<Rightarrow> generateImageVariation_catch loaderMessage s3
           | Resolved response \<Rightarrow>
               (case removeChild loaderMessage s3 of
                  None \<Rightarrow> generateImageVariation_catch loaderMessage s3
                | Some s4 \<Rightarrow>
                    (case response of
                       Some (None # _) \<Rightarrow> generateImageVariation_catch loaderMessage s4
                     | Some (Some parts # _) \<Rightarrow>
                         variation_report (scan_parts feedbackPrompt parts (False, s4))
                     | _ \<Rightarrow> variation_report (False, s4))))"

section \<open>handleUserPrompt\<close>

definition persona_contents :: "string \<Rightarrow> string" where
  "persona_contents prompt =
     ''The user wants to generate an image. Here is their request: \"'' @ prompt @ ''\"''"

definition handleUserPrompt :: "string \<Rightarrow> PersonaResponse outcome \<Rightarrow> state \<Rightarrow> state" where
  "handleUserPrompt prompt reply s0 =
     (let s1 = setLoading True s0;
          s2 = s1\<lparr>lastUserPrompt := prompt\<rparr>;
          s3 = s2\<lparr>calls := calls s2 @ [Classify (persona_contents prompt)]\<rparr>
      in case reply of
           Resolved personaResponse \<Rightarrow>
             if isValidRequest personaResponse
             then snd (addMessage (Text (botResponse personaResponse @ ''<br><br>Now, choose an art style for your image.'')) Bot (no_options\<lparr>isStyleRequest := True\<rparr>) s3)
             else
               let (_, s4) = addMessage (Text (botResponse personaResponse)) Bot no_options s3
               in setLoading False s4
         | Rejected \<Rightarrow>
             let (_, s4) = addMessage (Text ''Sorry, I had an issue processing your request. Please try again.'') Bot no_options s3
             in setLoading False s4)"

section \<open>The submit listener of the form\<close>

text \<open>
  \<^verbatim>\<open>
  if (isLoading) return;
  const prompt = promptInput.value.trim();
  if (prompt) { addMessage(prompt, 'user'); promptInput.value = ''; ... }
  \<close>
\<close>

definition chatForm_submit :: "gateway \<Rightarrow> state \<Rightarrow> state" where
  "chatForm_submit g s0 =
     (if isLoading s0 then s0
      else
        let prompt = js_trim (promptValue s0)
        in if prompt \<noteq> []
           then
             let (_, s1) = addMessage (Text prompt) User no_options s0;
                 s2 = s1\<lparr>promptValue := []\<rparr>
             in if isVariationRequest s2
                then generateImageVariation prompt (variation g) (s2\<lparr>isVariationRequest := False\<rparr>)
                else handleUserPrompt prompt (classify g) s2
           else s0)"

section \<open>The click listener of the chat container\<close>

text \<open>
  The target of a click is an element of the page: a button of a row in a message, the
  vary button of item \<open>k\<close> of a grid in a message, or an image (which opens the viewer and
  nothing else).
\<close>

datatype target = ButtonTarget nat button | VaryTarget nat nat | ImageTarget

fun holds :: "child \<Rightarrow> button \<Rightarrow> bool" where
  "holds (ButtonContainer bs) b = (b \<in> set bs)"
| "holds (ImageGrid imgs p) b = False"

fun has_item :: "child \<Rightarrow> nat \<Rightarrow> bool" where
  "has_item (ImageGrid imgs p) k = (k < length imgs)"
| "has_item (ButtonContainer bs) k = False"

definition target_live :: "target \<Rightarrow> state \<Rightarrow> bool" where
  "target_live t s =
     (case t of
        ButtonTarget i b \<Rightarrow> list_ex (\<lambda>m. mid m = i \<and> list_ex (\<lambda>c. holds c b) (children m)) (chat s)
      | VaryTarget i k \<Rightarrow> list_ex (\<lambda>m. mid m = i \<and> list_ex (\<lambda>c. has_item c k) (children m)) (chat s)
      | ImageTarget \<Rightarrow> True)"

text \<open>\<^verbatim>\<open>target.parentElement.remove()\<close>: the row that holds the button leaves its message.\<close>

definition remove_parent :: "nat \<Rightarrow> button \<Rightarrow> state \<Rightarrow> state" where
  "remove_parent i b s =
     s\<lparr>chat := map (\<lambda>m. if mid m = i
                          then m\<lparr>children := filter (\<lambda>c. \<not> holds c b) (children m)\<rparr>
                          else m) (chat s)\<rparr>"

definition fullPrompt :: "string \<Rightarrow> string \<Rightarrow> string" where
  "fullPrompt prompt style =
     ''Generate 4 distinct, high-quality images of '' @ [CHR 0x27] @ prompt @ [CHR 0x27]
     @ '', in a '' @ style
     @ '' style. If a well-known athlete is mentioned, please ensure the image is a recognizable likeness. The images should have a modern, aesthetic vibe and showcase the sport from different perspectives, including action shots, equipment close-ups, and artistic compositions.''"

definition feedback_question :: html where
  "feedback_question = Text ''Of course. What would you like to change or add to this image?''"

text \<open>
  The vary branch, on the index parsed from \<^verbatim>\<open>data-image-index\<close>:
  \<^verbatim>\<open>
  if (lastGeneratedImages[index]) {
      lastGeneratedImage = lastGeneratedImages[index];
      isVariationRequest = true;
      addMessage("Of course. ...", 'bot');
      setLoading(false);
  }
  \<close>
\<close>

definition vary_click :: "int \<Rightarrow> state \<Rightarrow> state" where
  "vary_click index s0 =
     (if truthy (js_index (lastGeneratedImages s0) index)
      then
        let s1 = s0\<lparr>lastGeneratedImage := js_index (lastGeneratedImages s0) index\<rparr>;
            s2 = s1\<lparr>isVariationRequest := True\<rparr>;
            (_, s3) = addMessage feedback_question Bot no_options s2
        in setLoading False s3
      else s0)"

definition satisfaction_click :: "string \<Rightarrow> state \<Rightarrow> state" where
  "satisfaction_click choice s0 =
     (if choice = ''satisfied''
      then
        let (_, s1) = addMessage (Text ''Great! Your sports image has been generated successfully.'') Bot no_options s0;
            (_, s2) = addMessage (Text ''What would you like to create next?'') Bot no_options s1;
            s3 = setLoading False s2
        in s3\<lparr>lastGeneratedImage := None, lastGeneratedImages := []\<rparr>
      else if choice = ''retry''
      then
        let (_, s1) = addMessage (Text ''No problem. Please describe the new sports image you have in mind.'') Bot no_options s0;
            s2 = setLoading False s1
        in s2\<lparr>lastGeneratedImage := None, lastGeneratedImages := []\<rparr>
      else if choice = ''variations''
      then
        let s1 = s0\<lparr>isVariationRequest := True\<rparr>;
            (_, s2) = addMessage feedback_question Bot no_options s1
        in setLoading False s2
      else s0)"

definition chatContainer_click :: "gateway \<Rightarrow> target \<Rightarrow> state \<Rightarrow> state" where
  "chatContainer_click g t s0 =
     (case t of
        ImageTarget \<Rightarrow> s0
      | ButtonTarget i (StyleButton style) \<Rightarrow>
          let s1 = remove_parent i (StyleButton style) s0
          in if style \<noteq> [] \<and> lastUserPrompt s1 \<noteq> []
             then generateImage (fullPrompt (lastUserPrompt s1) style) (images g) s1
             else s1
      | ButtonTarget i (SatisfactionButton choice) \<Rightarrow>
          satisfaction_click choice (remove_parent i (SatisfactionButton choice) s0)
      | VaryTarget i k \<Rightarrow> vary_click (int k) s0)"

section \<open>A session\<close>

text \<open>
  The script starts with the variables as declared and two timers that each append a
  welcome message (the dash of the first one is written as a hyphen). An event is the
  user typing into the input (when it is enabled), submitting the form, clicking an
  element that is on the page, or the next timer firing.
\<close>

definition init :: state where
  "init =
     \<lparr>isLoading = False, lastUserPrompt = [], lastGeneratedImage = None,
      lastGeneratedImages = [], isVariationRequest = False, chat = [], next_id = 0,
      promptValue = [], promptDisabled = False, sendDisabled = False, calls = [],
      timers = [''Welcome to the Sports Visuals Generator - your AI-powered assistant for creating stunning sports-themed images.'',
                ''This chatbot can generate images for any sport. What would you like to create?'']\<rparr>"

datatype event = Type string | Submit | Click target | Timer

definition step :: "gateway \<Rightarrow> event \<Rightarrow> state \<Rightarrow> state" where
  "step g e s =
     (case e of
        Type v \<Rightarrow> if promptDisabled s then s else s\<lparr>promptValue := v\<rparr>
      | Submit \<Rightarrow> chatForm_submit g s
      | Click t \<Rightarrow> if target_live t s then chatContainer_click g t s else s
      | Timer \<Rightarrow>
          (case timers s of
             [] \<Rightarrow> s
           | w # ws \<Rightarrow> snd (addMessage (Text w) Bot no_options (s\<lparr>timers := ws\<rparr>))))"

fun run :: "(gateway \<times> event) list \<Rightarrow> state \<Rightarrow> state" where
  "run [] s = s"
| "run ((g, e) # es) s = run es (step g e s)"

inductive reachable :: "state \<Rightarrow> bool" where
  reachable_init: "reachable init"
| reachable_step: "reachable s \<Longrightarrow> reachable (step g e s)"

section \<open>The phases of the specification\<close>

text \<open>
  The script has no variable for the phase of the conversation; a phase is read off the
  state between two events. With the input enabled the session waits for text: for the
  feedback on an image when \<^verbatim>\<open>isVariationRequest\<close> is set, otherwise for a new prompt.
  With the input blocked it waits for a click on the row of buttons that the latest
  message offers; when the latest message offers none, no phase fits. The three phases
  in which a call is outstanding do not occur between events.
\<close>

datatype phase =
    Idle | AwaitingPersonaReply | AwaitingStyleChoice | GeneratingBatch
  | AwaitingSatisfaction | AwaitingVariationFeedback | GeneratingVariation

definition phase_of :: "state \<Rightarrow> phase option" where
  "phase_of s =
     (if \<not> isLoading s
      then Some (if isVariationRequest s then AwaitingVariationFeedback else Idle)
      else if chat s = [] then None
      else if satisfaction_buttons \<in> set (children (last (chat s))) then Some AwaitingSatisfaction
      else if style_buttons \<in> set (children (last (chat s))) then Some AwaitingStyleChoice
      else None)"


section \<open>Sample sessions\<close>

text \<open>
  A service that accepts the prompt, returns four images and one variation, and the
  session of the specification's round trip: the two welcome messages (elements 0 and
  1), the prompt (2), the confirmation with the style row (3), the grid (5, after the
  loader 4) and the guidance (6); then the question after the vary click (7), the
  feedback (8), the variation (10, after the loader 9) and the satisfaction row (11).
\<close>

definition service :: gateway where
  "service =
     \<lparr>classify = Resolved \<lparr>isValidRequest = True, botResponse = ''Great idea!''\<rparr>,
      images = Resolved (Some [Image (Some ''img0''), Image (Some ''img1''),
                               Image (Some ''img2''), Image (Some ''img3'')]),
      variation = Resolved (Some [Some [TextPart ''Done.'',
                                        InlineData (Some ''image/png'') (Some ''var0'')]])\<rparr>"

definition to_styles :: "(gateway \<times> event) list" where
  "to_styles =
     [(service, Timer), (service, Timer),
      (service, Type ''a soccer player scoring a goal''), (service, Submit)]"

definition to_grid :: "(gateway \<times> event) list" where
  "to_grid = to_styles @ [(service, Click (ButtonTarget 3 (StyleButton ''cartoon'')))]"

definition to_feedback :: "(gateway \<times> event) list" where
  "to_feedback = to_grid @ [(service, Click (VaryTarget 5 2))]"

definition to_satisfaction :: "(gateway \<times> event) list" where
  "to_satisfaction = to_feedback @ [(service, Type ''make the jersey red''), (service, Submit)]"

definition to_done :: "(gateway \<times> event) list" where
  "to_done = to_satisfaction @ [(service, Click (ButtonTarget 11 (SatisfactionButton ''satisfied'')))]"

text \<open>
  The same service with the variation call failing, with two images in the variation
  reply, and with no image in the batch reply.
\<close>

definition service_down :: gateway where
  "service_down = service\<lparr>variation := Rejected\<rparr>"



text \<open>
  The same service answering without \<^verbatim>\<open>generatedImages\<close>, and with a first candidate
  that has no content.
\<close>

definition service_no_images :: gateway where
  "service_no_images = service\<lparr>images := Resolved None\<rparr>"

definition service_blocked :: gateway where
  "service_blocked = service\<lparr>variation := Resolved (Some [None])\<rparr>"

text \<open>
  The round trip with the variation call failing, and with two images in the reply. The
  reply of the classification call as text, with its value.
\<close>

definition to_failure :: "(gateway \<times> event) list" where
  "to_failure =
     to_feedback @ [(service_down, Type ''make the jersey red''), (service_down, Submit)]"






definition reply_text :: string where
  "reply_text = ''{\"isValidRequest\": true, \"botResponse\": \"Great idea!\"}''"

definition reply_value :: json where
  "reply_value =
     JObject [(units ''isValidRequest'', JBool True),
              (units ''botResponse'', JString (units ''Great idea!''))]"

section \<open>Notions used in the statements\<close>

text \<open>The data of the inline image parts of a candidate, in part order.\<close>

fun inline_images :: "part list \<Rightarrow> string option list" where
  "inline_images [] = []"
| "inline_images (TextPart t # ps) = inline_images ps"
| "inline_images (InlineData mimeType d # ps) = d # inline_images ps"

text \<open>
  The parts that the loop visits: those of the first candidate, none when there is no
  candidate; \<open>None\<close> when reading them throws.
\<close>

definition first_parts :: "response \<Rightarrow> part list option" where
  "first_parts response =
     (case response of
        Some (None # _) \<Rightarrow> None
      | Some (Some parts # _) \<Rightarrow> Some parts
      | _ \<Rightarrow> Some [])"

text \<open>The messages that the loop over the parts appends for these images, from element \<open>n\<close> on.\<close>

fun image_messages :: "string \<Rightarrow> nat \<Rightarrow> string option list \<Rightarrow> message list" where
  "image_messages fb n [] = []"
| "image_messages fb n (d # ds) =
     \<lparr>mid = n, sender = Bot, body = Inner (ImageContainer d fb), children = []\<rparr>
     # image_messages fb (Suc n) ds"

text \<open>
  A batch call whose outcome the script can read: it rejects, or it resolves with
  \<^verbatim>\<open>generatedImages\<close> whose entries all have an image.
\<close>

definition readable :: "images_response outcome \<Rightarrow> bool" where
  "readable reply =
     (case reply of
        Rejected \<Rightarrow> True
      | Resolved response \<Rightarrow> Option.bind response image_bytes \<noteq> None)"

text \<open>
  What holds of the variables between two events: the input is not blocked while
  feedback is awaited.
\<close>

definition page_ok :: "state \<Rightarrow> bool" where
  "page_ok s = (isLoading s \<longrightarrow> \<not> isVariationRequest s)"

section \<open>Facts about the page functions\<close>

lemma addMessage_snd [simp]:
  "snd (addMessage t sd opts s) =
     s\<lparr>chat := chat s @ [\<lparr>mid = next_id s, sender = sd,
             body = (if opt_isLoading opts then Loader else Inner t),
             children = (if isStyleRequest opts then [style_buttons] else [])
                        @ (if isSatisfactionRequest opts then [satisfaction_buttons] else [])\<rparr>],
       next_id := Suc (next_id s)\<rparr>"
  by (simp add: addMessage_def)

lemma addMessage_fst [simp]: "fst (addMessage t sd opts s) = next_id s"
  by (simp add: addMessage_def)

lemma buttons_distinct [simp]:
  "style_buttons \<noteq> satisfaction_buttons" "satisfaction_buttons \<noteq> style_buttons"
  by (simp_all add: style_buttons_def satisfaction_buttons_def)

lemma no_options_simps [simp]:
  "opt_isLoading no_options = False" "isSatisfactionRequest no_options = False"
  "isStyleRequest no_options = False"
  by (simp_all add: no_options_def)

lemma remove_parent_keeps [simp]:
  "isLoading (remove_parent i b s) = isLoading s"
  "isVariationRequest (remove_parent i b s) = isVariationRequest s"
  "lastUserPrompt (remove_parent i b s) = lastUserPrompt s"
  by (simp_all add: remove_parent_def)


subsection \<open>The loop over the parts\<close>

lemma scan_parts_inline:
  "scan_parts fb (InlineData mt d # ps) (f, s) =
     scan_parts fb ps
       (True, snd (addMessage (ImageContainer d fb) Bot no_options (s\<lparr>lastGeneratedImage := d\<rparr>)))"
  by (simp add: Let_def split_def del: addMessage_snd)

text \<open>
  What the loop computes: the flag is set when there is an inline image, the variable
  ends as the data of the last of them (each assignment overwrites the one before), and
  each image gets a message.
\<close>

lemma scan_parts_result:
  "scan_parts fb ps (f, s) =
     (f \<or> inline_images ps \<noteq> [],
      s\<lparr>lastGeneratedImage :=
           (if inline_images ps = [] then lastGeneratedImage s else last (inline_images ps)),
        chat := chat s @ image_messages fb (next_id s) (inline_images ps),
        next_id := next_id s + length (inline_images ps)\<rparr>)"
proof (induction ps arbitrary: f s)
  case Nil
  show ?case by simp
next
  case (Cons p ps)
  show ?case
  proof (cases p)
    case (TextPart t)
    with Cons show ?thesis by simp
  next
    case (InlineData mt d)
    with Cons show ?thesis
      by (simp add: scan_parts_inline del: scan_parts.simps)
  qed
qed

subsection \<open>The loader\<close>

text \<open>The loader that a call has just appended is there to be removed, once.\<close>

lemma removeChild_loader:
  "chat t = ms @ [m] \<Longrightarrow> mid m = i
   \<Longrightarrow> removeChild i t = Some (t\<lparr>chat := filter (\<lambda>m. mid m \<noteq> i) ms\<rparr>)"
  by (simp add: removeChild_def)

lemma removeChild_gone:
  "removeChild i (t\<lparr>chat := filter (\<lambda>m. mid m \<noteq> i) ms\<rparr>) = None"
  by (simp add: removeChild_def list_ex_iff)

subsection \<open>The branches of the two calls\<close>

text \<open>
  \<^verbatim>\<open>generateImage\<close> by the outcome of its call: a rejection, a response whose images can
  be read, and a response where reading them throws. In the last case the loader is
  gone and nothing else has happened: no variable is cleared, no message is added and
  \<^verbatim>\<open>isLoading\<close> is as it was.
\<close>

lemma generateImage_rejected:
  "generateImage p Rejected s =
     s\<lparr>isLoading := False, promptDisabled := False, sendDisabled := False,
       lastGeneratedImages := [], lastGeneratedImage := None,
       chat := filter (\<lambda>m. mid m \<noteq> next_id s) (chat s)
               @ [\<lparr>mid = Suc (next_id s), sender = Bot,
                    body = Inner (Text ''An error occurred while generating the images. Please try again.''),
                    children = []\<rparr>],
       next_id := Suc (Suc (next_id s)),
       calls := calls s @ [GenerateImages p]\<rparr>"
  by (simp add: generateImage_def generateImage_catch_def removeChild_def Let_def split_def
        setLoading_def)


lemma generateImage_throws:
  "Option.bind response image_bytes = None
   \<Longrightarrow> generateImage p (Resolved response) s =
       s\<lparr>chat := filter (\<lambda>m. mid m \<noteq> next_id s) (chat s),
         next_id := Suc (next_id s),
         calls := calls s @ [GenerateImages p]\<rparr>"
  by (simp add: generateImage_def generateImage_catch_def removeChild_def Let_def split_def
        list_ex_iff)

lemma generateImage_read:
  "Option.bind response image_bytes = Some imgs
   \<Longrightarrow> lastGeneratedImage (generateImage p (Resolved response) s) = None
       \<and> lastGeneratedImages (generateImage p (Resolved response) s) = imgs
       \<and> \<not> isLoading (generateImage p (Resolved response) s)
       \<and> isVariationRequest (generateImage p (Resolved response) s) = isVariationRequest s"
  by (simp add: generateImage_def removeChild_def Let_def split_def setLoading_def
        appendChild_def)

text \<open>
  The \<^verbatim>\<open>catch\<close> branch of \<^verbatim>\<open>generateImageVariation\<close>, in any state with an image to
  vary: the loader goes, the error message comes, and \<^verbatim>\<open>isLoading\<close> stays as the call
  set it. When reading the parts throws, the loader is gone and nothing is appended.
\<close>

lemma generateImageVariation_rejected:
  "truthy (lastGeneratedImage s)
   \<Longrightarrow> generateImageVariation fb Rejected s =
       s\<lparr>isLoading := True, promptDisabled := True, sendDisabled := True,
         chat := filter (\<lambda>m. mid m \<noteq> next_id s) (chat s)
                 @ [\<lparr>mid = Suc (next_id s), sender = Bot,
                      body = Inner (Text ''An error occurred while generating the image variation. Please try again.''),
                      children = []\<rparr>],
         next_id := Suc (Suc (next_id s)),
         calls := calls s @ [GenerateContent (the (lastGeneratedImage s)) fb]\<rparr>"
  by (simp add: generateImageVariation_def generateImageVariation_catch_def removeChild_def
        Let_def split_def setLoading_def)

lemma generateImageVariation_throws:
  "truthy (lastGeneratedImage s) \<Longrightarrow> first_parts response = None
   \<Longrightarrow> generateImageVariation fb (Resolved response) s =
       s\<lparr>isLoading := True, promptDisabled := True, sendDisabled := True,
         chat := filter (\<lambda>m. mid m \<noteq> next_id s) (chat s),
         next_id := Suc (next_id s),
         calls := calls s @ [GenerateContent (the (lastGeneratedImage s)) fb]\<rparr>"
  by (auto simp add: generateImageVariation_def generateImageVariation_catch_def removeChild_def
        first_parts_def Let_def split_def setLoading_def list_ex_iff
        split: option.splits list.splits)

lemma generateImageVariation_visits:
  "truthy (lastGeneratedImage s) \<Longrightarrow> first_parts response = Some ps
   \<Longrightarrow> generateImageVariation fb (Resolved response) s =
       variation_report
         (scan_parts fb ps
            (False,
             s\<lparr>isLoading := True, promptDisabled := True, sendDisabled := True,
               next_id := Suc (next_id s),
               calls := calls s @ [GenerateContent (the (lastGeneratedImage s)) fb],
               chat := filter (\<lambda>m. mid m \<noteq> next_id s) (chat s)\<rparr>))"
  by (auto simp add: first_parts_def split: option.splits list.splits)
     (simp_all add: generateImageVariation_def removeChild_def Let_def split_def setLoading_def
        del: scan_parts.simps(2,3))

subsection \<open>What each function keeps\<close>

lemma generateImage_keeps:
  "isVariationRequest (generateImage p r s) = isVariationRequest s"
  "isLoading (generateImage p r s) \<Longrightarrow> isLoading s"
proof -
  consider (rejected) "r = Rejected"
    | (throws) response where "r = Resolved response" "Option.bind response image_bytes = None"
    | (read) response imgs where "r = Resolved response" "Option.bind response image_bytes = Some imgs"
    by (cases r) auto
  then have "isVariationRequest (generateImage p r s) = isVariationRequest s
             \<and> (isLoading (generateImage p r s) \<longrightarrow> isLoading s)"
  proof cases
    case rejected
    then show ?thesis by (simp add: generateImage_rejected)
  next
    case throws
    then show ?thesis by (simp add: generateImage_throws)
  next
    case read
    then show ?thesis by (simp add: generateImage_read)
  qed
  then show "isVariationRequest (generateImage p r s) = isVariationRequest s"
    and "isLoading (generateImage p r s) \<Longrightarrow> isLoading s"
    by simp_all
qed

lemma variation_report_keeps:
  "isVariationRequest (variation_report (f, t)) = isVariationRequest t"
  "lastGeneratedImages (variation_report (f, t)) = lastGeneratedImages t"
  "lastGeneratedImage (variation_report (f, t)) = lastGeneratedImage t"
  "isLoading (variation_report (f, t)) = isLoading t"
  by (simp_all add: variation_report_def Let_def split_def)

lemma generateImageVariation_keeps:
  "isVariationRequest (generateImageVariation fb r s) = isVariationRequest s"
  "lastGeneratedImages (generateImageVariation fb r s) = lastGeneratedImages s"
proof -
  have "isVariationRequest (generateImageVariation fb r s) = isVariationRequest s
        \<and> lastGeneratedImages (generateImageVariation fb r s) = lastGeneratedImages s"
  proof (cases "truthy (lastGeneratedImage s)")
    case False
    then show ?thesis
      by (simp add: generateImageVariation_def Let_def split_def setLoading_def)
  next
    case True
    show ?thesis
    proof (cases r)
      case Rejected
      with True show ?thesis by (simp add: generateImageVariation_rejected)
    next
      case (Resolved response)
      show ?thesis
      proof (cases "first_parts response")
        case None
        with True Resolved show ?thesis by (simp add: generateImageVariation_throws)
      next
        case (Some ps)
        with True Resolved show ?thesis
          by (simp add: generateImageVariation_visits scan_parts_result variation_report_keeps
                del: scan_parts.simps)
      qed
    qed
  qed
  then show "isVariationRequest (generateImageVariation fb r s) = isVariationRequest s"
    and "lastGeneratedImages (generateImageVariation fb r s) = lastGeneratedImages s"
    by simp_all
qed

lemma handleUserPrompt_keeps:
  "isVariationRequest (handleUserPrompt p r s) = isVariationRequest s"
  by (cases r) (simp_all add: handleUserPrompt_def Let_def split_def setLoading_def)

lemma satisfaction_click_keeps:
  "isLoading (satisfaction_click c s)
   \<Longrightarrow> isLoading s \<and> isVariationRequest (satisfaction_click c s) = isVariationRequest s"
  by (auto simp add: satisfaction_click_def Let_def split_def setLoading_def split: if_splits)

lemma vary_click_keeps:
  "isLoading (vary_click i s)
   \<Longrightarrow> isLoading s \<and> isVariationRequest (vary_click i s) = isVariationRequest s"
  by (auto simp add: vary_click_def Let_def split_def setLoading_def split: if_splits)

subsection \<open>Every event keeps the input unblocked while feedback is awaited\<close>

lemma submit_page_ok:
  assumes "page_ok s"
  shows "page_ok (chatForm_submit g s)"
proof (cases "isLoading s \<or> js_trim (promptValue s) = []")
  case True
  with assms show ?thesis by (auto simp add: chatForm_submit_def)
next
  case False
  let ?p = "js_trim (promptValue s)"
  let ?s2 = "(snd (addMessage (Text ?p) User no_options s))\<lparr>promptValue := []\<rparr>"
  show ?thesis
  proof (cases "isVariationRequest s")
    case True
    with False have eq: "chatForm_submit g s
        = generateImageVariation ?p (variation g) (?s2\<lparr>isVariationRequest := False\<rparr>)"
      by (simp add: chatForm_submit_def Let_def split_def)
    show ?thesis
      unfolding eq page_ok_def by (simp add: generateImageVariation_keeps(1))
  next
    case no: False
    with False have eq: "chatForm_submit g s = handleUserPrompt ?p (classify g) ?s2"
      by (simp add: chatForm_submit_def Let_def split_def)
    from no show ?thesis
      unfolding eq page_ok_def by (simp add: handleUserPrompt_keeps)
  qed
qed

lemma click_page_ok:
  assumes "page_ok s"
  shows "page_ok (chatContainer_click g t s)"
proof (cases t)
  case (ButtonTarget i b)
  show ?thesis
  proof (cases b)
    case (StyleButton style)
    with ButtonTarget assms show ?thesis
      unfolding page_ok_def
      using generateImage_keeps(2)
              [of "fullPrompt (lastUserPrompt s) style" "images g" "remove_parent i (StyleButton style) s"]
      by (auto simp add: chatContainer_click_def Let_def generateImage_keeps(1))
  next
    case (SatisfactionButton choice)
    with ButtonTarget assms show ?thesis
      unfolding page_ok_def
      using satisfaction_click_keeps [of choice "remove_parent i (SatisfactionButton choice) s"]
      by (auto simp add: chatContainer_click_def)
  qed
next
  case (VaryTarget i k)
  with assms show ?thesis
    unfolding page_ok_def
    using vary_click_keeps [of "int k" s]
    by (auto simp add: chatContainer_click_def)
next
  case ImageTarget
  with assms show ?thesis by (simp add: chatContainer_click_def)
qed

lemma step_page_ok:
  assumes "page_ok s"
  shows "page_ok (step g e s)"
proof (cases e)
  case (Type v)
  with assms show ?thesis by (simp add: step_def page_ok_def)
next
  case Submit
  with assms show ?thesis by (simp add: step_def submit_page_ok)
next
  case (Click t)
  with assms show ?thesis by (simp add: step_def click_page_ok)
next
  case Timer
  with assms show ?thesis by (simp add: step_def page_ok_def split: list.splits)
qed

lemma reachable_page_ok: "reachable s \<Longrightarrow> page_ok s"
proof (induction rule: reachable.induct)
  case reachable_init
  show ?case by (simp add: page_ok_def init_def)
next
  case (reachable_step s g e)
  then show ?case by (simp add: step_page_ok)
qed

lemma reachable_run: "reachable s \<Longrightarrow> reachable (run es s)"
proof (induction es arbitrary: s)
  case Nil
  then show ?case by simp
next
  case (Cons ge es)
  obtain g e where ge: "ge = (g, e)" by (cases ge)
  from Cons.prems have "reachable (step g e s)" by (rule reachable_step)
  then have "reachable (run es (step g e s))" by (rule Cons.IH)
  with ge show ?case by simp
qed


subsection \<open>The reply of the sample service\<close>

lemma reply_text_parsed: "JSON_parse reply_text = Some reply_value"
  by code_simp

lemma reply_text_outcome: "persona_outcome (Resolved (Some reply_text)) = Some (classify service)"
  by code_simp

text \<open>The same reply between plain fences, without \<^verbatim>\<open>json\<close> after the first: refused.\<close>

lemma plain_fence_refused:
  "getPersonaResponse (Resolved (Some (fence @ CHR 0x0A # reply_text @ CHR 0x0A # fence)))
     = Inl persona_error"
  by code_simp

subsection \<open>The lexer after a string\<close>

text \<open>
  What \<open>scan_string\<close> returns as the rest is the input without a non-empty front, so
  the lexer goes on exactly there.
\<close>

lemma scan_string_suffix:
  "scan_string cs = Some (b, rest) \<Longrightarrow> \<exists>pre. pre \<noteq> [] \<and> cs = pre @ rest"
proof (induction "length cs" arbitrary: cs b rest rule: less_induct)
  case less
  show ?case
  proof (cases cs)
    case Nil
    with less.prems show ?thesis by simp
  next
    case (Cons c cs')
    consider (quote) "c = CHR 0x22"
      | (escape) "c = CHR 0x5C"
      | (plain) "c \<noteq> CHR 0x22" "c \<noteq> CHR 0x5C"
      by blast
    then show ?thesis
    proof cases
      case quote
      with Cons less.prems have "cs = [c] @ rest" by simp
      then show ?thesis by blast
    next
      case plain
      with Cons less.prems obtain b' where "scan_string cs' = Some (b', rest)"
        by (auto split: if_splits)
      with less.hyps [of cs'] Cons obtain pre where "cs' = pre @ rest"
        by auto
      with Cons have "cs = (c # pre) @ rest" by simp
      then show ?thesis by blast
    next
      case escape
      with Cons less.prems obtain e r where r: "cs' = e # r"
        by (cases cs') auto
      show ?thesis
      proof (cases "e = CHR ''u''")
        case False
        with escape Cons r less.prems obtain b' where "scan_string r = Some (b', rest)"
          by (auto split: if_splits)
        with less.hyps [of r] Cons r obtain pre where "r = pre @ rest"
          by auto
        with Cons r have "cs = (c # e # pre) @ rest" by simp
        then show ?thesis by blast
      next
        case True
        with escape Cons r less.prems obtain h1 h2 h3 h4 r' b'
          where r': "r = h1 # h2 # h3 # h4 # r'" and "scan_string r' = Some (b', rest)"
          by (auto split: if_splits list.splits)
        with less.hyps [of r'] Cons r obtain pre where "r' = pre @ rest"
          by auto
        with Cons r r' have "cs = (c # e # h1 # h2 # h3 # h4 # pre) @ rest" by simp
        then show ?thesis by blast
      qed
    qed
  qed
qed

lemma scan_string_rest:
  assumes "scan_string cs = Some (b, rest)"
  shows "drop (length cs - length rest) cs = rest"
proof -
  from assms obtain pre where "cs = pre @ rest"
    using scan_string_suffix by blast
  then show ?thesis by simp
qed

lemma lex_string:
  "scan_string cs = Some (b, rest)
   \<Longrightarrow> lex (CHR 0x22 # cs) = map_option ((#) (TAtom (JString b))) (lex rest)"
  by (simp add: scan_string_rest json_ws_def)

subsection \<open>Trimming and the fences\<close>

lemma dropWhile_all: "\<forall>c\<in>set w. P c \<Longrightarrow> dropWhile P (w @ t) = dropWhile P t"
  by (induction w) auto

lemma js_trim_padded:
  assumes "\<forall>c\<in>set w1. js_whitespace c" and "\<forall>c\<in>set w2. js_whitespace c"
    and "\<not> js_whitespace a" and "\<not> js_whitespace z"
  shows "js_trim (w1 @ a # t @ z # w2) = a # t @ [z]"
proof -
  from assms(1,3) have "dropWhile js_whitespace (w1 @ a # t @ z # w2) = a # t @ z # w2"
    by (simp add: dropWhile_all)
  moreover have "rev (a # t @ z # w2) = rev w2 @ z # rev t @ [a]" by simp
  moreover from assms(2,4)
  have "dropWhile js_whitespace (rev w2 @ z # rev t @ [a]) = z # rev t @ [a]"
    by (simp add: dropWhile_all)
  ultimately show ?thesis by (simp add: js_trim_def)
qed

lemma js_trim_fenced:
  assumes "\<forall>c\<in>set w1. js_whitespace c" and "\<forall>c\<in>set w2. js_whitespace c"
  shows "js_trim (w1 @ fence_json @ CHR 0x0A # b @ fence @ w2) = fence_json @ CHR 0x0A # b @ fence"
proof -
  have "js_trim (w1 @ CHR 0x60 # ([CHR 0x60, CHR 0x60] @ ''json'' @ CHR 0x0A # b @ [CHR 0x60, CHR 0x60])
                 @ CHR 0x60 # w2)
          = CHR 0x60 # ([CHR 0x60, CHR 0x60] @ ''json'' @ CHR 0x0A # b @ [CHR 0x60, CHR 0x60])
            @ [CHR 0x60]"
    using assms by (intro js_trim_padded) (simp_all add: js_whitespace_def)
  then show ?thesis by (simp add: fence_json_def fence_def)
qed

lemma strip_fenced: "strip_close (strip_open (fence_json @ CHR 0x0A # b @ fence)) = b"
  by (simp add: strip_open_def strip_close_def fence_json_def fence_def)


section \<open>The claims\<close>

subsection \<open>A failed variation call\<close>

text \<open>
  C1. When the variation call rejects, the \<^verbatim>\<open>catch\<close> branch of
  \<^verbatim>\<open>generateImageVariation\<close> removes the loader and appends the error message, and that
  is all: it neither offers the satisfaction row again nor calls \<^verbatim>\<open>setLoading(false)\<close>,
  as the other two \<^verbatim>\<open>catch\<close> branches and the branch for a reply without an image do. In
  the round trip, with the call failing: the input stays blocked, the latest message is
  the error message without buttons, no satisfaction row is on the page, and the session
  is in no phase.
\<close>

theorem variation_failure_blocks_input:
  "isLoading (run to_failure init)
   \<and> promptDisabled (run to_failure init)
   \<and> sendDisabled (run to_failure init)
   \<and> body (last (chat (run to_failure init)))
       = Inner (Text ''An error occurred while generating the image variation. Please try again.'')
   \<and> children (last (chat (run to_failure init))) = []
   \<and> \<not> list_ex (\<lambda>m. satisfaction_buttons \<in> set (children m)) (chat (run to_failure init))
   \<and> phase_of (run to_failure init) = None"
  by code_simp

subsection \<open>The two image variables\<close>

text \<open>
  C2. The two variables are not exclusive. After the vary click of the round trip
  \<^verbatim>\<open>lastGeneratedImage\<close> is the third image of the batch while \<^verbatim>\<open>lastGeneratedImages\<close>
  still holds all four, and after the variation it is the new image, with the four still
  there.
\<close>

theorem image_variables_counterexample:
  "reachable (run to_feedback init)
   \<and> lastGeneratedImages (run to_feedback init)
       = [Some ''img0'', Some ''img1'', Some ''img2'', Some ''img3'']
   \<and> lastGeneratedImage (run to_feedback init) = Some ''img2''
   \<and> reachable (run to_satisfaction init)
   \<and> lastGeneratedImages (run to_satisfaction init)
       = [Some ''img0'', Some ''img1'', Some ''img2'', Some ''img3'']
   \<and> lastGeneratedImage (run to_satisfaction init) = Some ''var0''"
proof -
  have "reachable (run to_feedback init)" "reachable (run to_satisfaction init)"
    by (rule reachable_run [OF reachable_init])+
  moreover have "lastGeneratedImages (run to_feedback init)
                   = [Some ''img0'', Some ''img1'', Some ''img2'', Some ''img3'']"
    by code_simp
  moreover have "lastGeneratedImage (run to_feedback init) = Some ''img2''"
    by code_simp
  moreover have "lastGeneratedImages (run to_satisfaction init)
                   = [Some ''img0'', Some ''img1'', Some ''img2'', Some ''img3'']"
    by code_simp
  moreover have "lastGeneratedImage (run to_satisfaction init) = Some ''var0''"
    by code_simp
  ultimately show ?thesis by simp
qed

text \<open>
  C2, as the script has it. A batch call that rejects, or that resolves with images the
  script can read, leaves \<^verbatim>\<open>lastGeneratedImage\<close> empty. A vary click on an index that
  holds a non-empty image copies that image into \<^verbatim>\<open>lastGeneratedImage\<close> and leaves
  \<^verbatim>\<open>lastGeneratedImages\<close> as it is, so both are set. A variation call never changes
  \<^verbatim>\<open>lastGeneratedImages\<close>.
\<close>

theorem image_variables_updates:
  "(readable r \<longrightarrow> lastGeneratedImage (generateImage p r s) = None)
   \<and> (truthy (js_index (lastGeneratedImages s) index) \<longrightarrow>
        lastGeneratedImage (vary_click index s) = js_index (lastGeneratedImages s) index
        \<and> truthy (lastGeneratedImage (vary_click index s))
        \<and> lastGeneratedImages (vary_click index s) = lastGeneratedImages s
        \<and> lastGeneratedImages (vary_click index s) \<noteq> [])
   \<and> lastGeneratedImages (generateImageVariation fb r' s) = lastGeneratedImages s"
proof -
  have "lastGeneratedImage (generateImage p r s) = None" if "readable r"
  proof (cases r)
    case Rejected
    then show ?thesis by (simp add: generateImage_rejected)
  next
    case (Resolved response)
    with that obtain imgs where "Option.bind response image_bytes = Some imgs"
      by (auto simp add: readable_def)
    with Resolved show ?thesis by (simp add: generateImage_read)
  qed
  moreover have "truthy (js_index (lastGeneratedImages s) index) \<Longrightarrow> lastGeneratedImages s \<noteq> []"
    by (cases "0 \<le> index \<and> index < int (length (lastGeneratedImages s))")
       (auto simp add: js_index_def)
  ultimately show ?thesis
    by (auto simp add: vary_click_def Let_def split_def setLoading_def generateImageVariation_keeps(2))
qed

theorem image_variables_updates_witness:
  "readable (images service)
   \<and> lastGeneratedImage (run to_feedback init) = Some ''img2''
   \<and> lastGeneratedImage (generateImage ''a tennis serve'' (images service) (run to_feedback init)) = None
   \<and> truthy (js_index (lastGeneratedImages (run to_grid init)) 2)
   \<and> lastGeneratedImage (vary_click 2 (run to_grid init)) = Some ''img2''
   \<and> lastGeneratedImages (vary_click 2 (run to_grid init))
       = [Some ''img0'', Some ''img1'', Some ''img2'', Some ''img3'']"
proof -
  have rd: "readable (images service)"
    by code_simp
  have before: "lastGeneratedImage (run to_feedback init) = Some ''img2''"
    by code_simp
  have imgs: "lastGeneratedImages (run to_grid init)
                = [Some ''img0'', Some ''img1'', Some ''img2'', Some ''img3'']"
    by code_simp
  then have hyp: "truthy (js_index (lastGeneratedImages (run to_grid init)) 2)"
    by (simp add: js_index_def)
  from rd before imgs hyp
    image_variables_updates [of "images service" "''a tennis serve''" "run to_feedback init" 2 "[]" Rejected]
    image_variables_updates [of Rejected "[]" "run to_grid init" 2 "[]" Rejected]
  show ?thesis by (simp add: js_index_def)
qed

subsection \<open>Which image a variation keeps\<close>




subsection \<open>The submit guard\<close>

text \<open>
  C4. Submitting while \<^verbatim>\<open>isLoading\<close> is set is ignored entirely, whatever the input holds
  and in every state: the listener returns the state it was given, so no module
  variable changes, no request is added to \<open>calls\<close> and no message is added to \<open>chat\<close>.
\<close>

theorem submit_while_loading_ignored:
  "isLoading s \<Longrightarrow> chatForm_submit g s = s"
  by (simp add: chatForm_submit_def)

theorem submit_while_loading_ignored_witness:
  "isLoading ((run to_styles init)\<lparr>promptValue := ''a tennis serve''\<rparr>)
   \<and> chatForm_submit service ((run to_styles init)\<lparr>promptValue := ''a tennis serve''\<rparr>)
       = (run to_styles init)\<lparr>promptValue := ''a tennis serve''\<rparr>"
proof -
  have busy: "isLoading ((run to_styles init)\<lparr>promptValue := ''a tennis serve''\<rparr>)"
    by code_simp
  from busy submit_while_loading_ignored [OF busy] show ?thesis by simp
qed

subsection \<open>A vary click outside the images\<close>

text \<open>
  C5. A vary click whose index is outside \<^verbatim>\<open>lastGeneratedImages\<close> (negative, or not below
  its length) changes nothing and raises nothing: reading the array there gives
  undefined, the condition fails, and the state is returned as it was. This holds for
  the branch itself and for the listener called on the vary button of any item.
\<close>

theorem vary_out_of_range_ignored:
  assumes "index < 0 \<or> int (length (lastGeneratedImages s)) \<le> index"
  shows "vary_click index s = s
       \<and> (\<forall>i k. int k = index \<longrightarrow> chatContainer_click g (VaryTarget i k) s = s)"
  using assms by (auto simp add: vary_click_def js_index_def chatContainer_click_def)

text \<open>
  After the user was satisfied, the grid of the round trip is still on the page, with
  its four vary buttons, and \<^verbatim>\<open>lastGeneratedImages\<close> is empty.
\<close>

theorem vary_out_of_range_ignored_witness:
  "target_live (VaryTarget 5 2) (run to_done init)
   \<and> ((2::int) < 0 \<or> int (length (lastGeneratedImages (run to_done init))) \<le> 2)
   \<and> vary_click 2 (run to_done init) = run to_done init
   \<and> step service (Click (VaryTarget 5 2)) (run to_done init) = run to_done init"
proof -
  have live: "target_live (VaryTarget 5 2) (run to_done init)"
    by code_simp
  have "lastGeneratedImages (run to_done init) = []"
    by code_simp
  then have hyp: "(2::int) < 0 \<or> int (length (lastGeneratedImages (run to_done init))) \<le> 2"
    by simp
  from live hyp vary_out_of_range_ignored [OF hyp, of service] show ?thesis
    by (simp add: step_def)
qed

subsection \<open>An empty batch\<close>



subsection \<open>The reply of the classification call\<close>

text \<open>
  C7. A reply that is JSON of another shape is not refused: the text \<^verbatim>\<open>{}\<close> parses, and
  \<^verbatim>\<open>getPersonaResponse\<close> returns the empty object, which has neither field.
\<close>

theorem persona_shape_counterexample:
  "getPersonaResponse (Resolved (Some ''{}'')) = Inr (JObject [])
   \<and> as_PersonaResponse (JObject []) = None"
  by code_simp

text \<open>
  C7, as the script has it. \<^verbatim>\<open>getPersonaResponse\<close> fails, with its one error, when the
  call rejects, when the reply has no text, and when \<^verbatim>\<open>JSON.parse\<close> refuses the reply
  after trimming and removing a leading \<^verbatim>\<open>```json\<close> and a trailing \<^verbatim>\<open>```\<close>; a text that
  parses is returned as parsed, with no check of its shape. In particular a reply
  wrapped in \<^verbatim>\<open>```json\<close>, a line feed and \<^verbatim>\<open>```\<close>, with white space around, gives what its
  content \<open>b\<close> gives.
\<close>

theorem persona_reply_parsed_unchecked:
  assumes "\<forall>c\<in>set w1 \<union> set w2. js_whitespace c"
  shows "getPersonaResponse Rejected = Inl persona_error
       \<and> getPersonaResponse (Resolved None) = Inl persona_error
       \<and> getPersonaResponse (Resolved (Some text))
           = (case JSON_parse (strip_close (strip_open (js_trim text))) of
                None \<Rightarrow> Inl persona_error
              | Some j \<Rightarrow> Inr j)
       \<and> getPersonaResponse (Resolved (Some (w1 @ fence_json @ CHR 0x0A # b @ fence @ w2)))
           = (case JSON_parse b of None \<Rightarrow> Inl persona_error | Some j \<Rightarrow> Inr j)"
proof -
  from assms
  have "js_trim (w1 @ fence_json @ CHR 0x0A # b @ fence @ w2) = fence_json @ CHR 0x0A # b @ fence"
    by (intro js_trim_fenced) auto
  then show ?thesis
    by (simp add: getPersonaResponse_def strip_fenced)
qed

theorem persona_reply_parsed_unchecked_witness:
  "list_all js_whitespace ([CHR '' ''] @ [CHR 0x0A])
   \<and> getPersonaResponse (Resolved (Some ([CHR '' ''] @ fence_json @ CHR 0x0A # reply_text @ fence @ [CHR 0x0A])))
       = Inr reply_value
   \<and> as_PersonaResponse reply_value = Some \<lparr>isValidRequest = True, botResponse = ''Great idea!''\<rparr>
   \<and> getPersonaResponse (Resolved (Some ''Sure, here is your image!'')) = Inl persona_error"
proof -
  have ws: "\<forall>c\<in>set [CHR '' ''] \<union> set [CHR 0x0A]. js_whitespace c"
    by (simp add: js_whitespace_def)
  have parsed: "JSON_parse reply_text = Some reply_value"
    by (rule reply_text_parsed)
  have shape: "as_PersonaResponse reply_value = Some \<lparr>isValidRequest = True, botResponse = ''Great idea!''\<rparr>"
    by code_simp
  have refused: "JSON_parse (strip_close (strip_open (js_trim ''Sure, here is your image!''))) = None"
    by code_simp
  from ws parsed shape refused
    persona_reply_parsed_unchecked [OF ws, of "''Sure, here is your image!''" reply_text]
  show ?thesis by (simp add: js_whitespace_def)
qed

subsection \<open>A valid request\<close>




subsection \<open>Satisfied, or another idea\<close>

text \<open>
  C9. In every state of a session that waits for the satisfaction choice, a click on
  \<^verbatim>\<open>satisfied\<close> or on \<^verbatim>\<open>retry\<close> empties \<^verbatim>\<open>lastGeneratedImage\<close> and \<^verbatim>\<open>lastGeneratedImages\<close>,
  enables the input and leaves the session \<open>Idle\<close>.
\<close>

theorem satisfied_or_retry_clears:
  assumes "reachable s"
    and "phase_of s = Some AwaitingSatisfaction"
    and "choice = ''satisfied'' \<or> choice = ''retry''"
  shows "lastGeneratedImage (chatContainer_click g (ButtonTarget i (SatisfactionButton choice)) s) = None
       \<and> lastGeneratedImages (chatContainer_click g (ButtonTarget i (SatisfactionButton choice)) s) = []
       \<and> \<not> isLoading (chatContainer_click g (ButtonTarget i (SatisfactionButton choice)) s)
       \<and> phase_of (chatContainer_click g (ButtonTarget i (SatisfactionButton choice)) s) = Some Idle"
proof -
  from assms(2) have busy: "isLoading s"
    by (simp add: phase_of_def split: if_splits)
  from assms(1) have "page_ok s" by (rule reachable_page_ok)
  with busy have flag: "\<not> isVariationRequest s" by (simp add: page_ok_def)
  from assms(3) flag show ?thesis
    by (auto simp add: chatContainer_click_def satisfaction_click_def Let_def split_def
          setLoading_def phase_of_def)
qed

theorem satisfied_or_retry_clears_witness:
  "reachable (run to_satisfaction init)
   \<and> phase_of (run to_satisfaction init) = Some AwaitingSatisfaction
   \<and> (''retry'' = ''satisfied'' \<or> ''retry'' = ''retry'')
   \<and> target_live (ButtonTarget 11 (SatisfactionButton ''retry'')) (run to_satisfaction init)
   \<and> lastGeneratedImage (run to_satisfaction init) = Some ''var0''
   \<and> lastGeneratedImage (chatContainer_click service (ButtonTarget 11 (SatisfactionButton ''retry'')) (run to_satisfaction init)) = None
   \<and> lastGeneratedImages (chatContainer_click service (ButtonTarget 11 (SatisfactionButton ''retry'')) (run to_satisfaction init)) = []
   \<and> phase_of (chatContainer_click service (ButtonTarget 11 (SatisfactionButton ''retry'')) (run to_satisfaction init)) = Some Idle"
proof -
  have r: "reachable (run to_satisfaction init)"
    by (rule reachable_run [OF reachable_init])
  have p: "phase_of (run to_satisfaction init) = Some AwaitingSatisfaction"
    by code_simp
  have c: "''retry'' = ''satisfied'' \<or> ''retry'' = ''retry''"
    by simp
  have l: "target_live (ButtonTarget 11 (SatisfactionButton ''retry'')) (run to_satisfaction init)"
    by code_simp
  have v: "lastGeneratedImage (run to_satisfaction init) = Some ''var0''"
    by code_simp
  from r p l v satisfied_or_retry_clears [OF r p c, of service 11] show ?thesis by simp
qed

subsection \<open>A blank submission\<close>

text \<open>
  C10. A submission whose text is empty after trimming does nothing, also when the input
  is enabled: no user message, no request, no change of any variable (the flag
  \<^verbatim>\<open>isVariationRequest\<close> included).
\<close>

theorem blank_submit_ignored:
  "js_trim (promptValue s) = [] \<Longrightarrow> chatForm_submit g s = s"
  by (simp add: chatForm_submit_def)

theorem blank_submit_ignored_witness:
  "\<not> isLoading ((run to_feedback init)\<lparr>promptValue := [CHR '' '', CHR 0x09, CHR '' '']\<rparr>)
   \<and> isVariationRequest ((run to_feedback init)\<lparr>promptValue := [CHR '' '', CHR 0x09, CHR '' '']\<rparr>)
   \<and> js_trim (promptValue ((run to_feedback init)\<lparr>promptValue := [CHR '' '', CHR 0x09, CHR '' '']\<rparr>)) = []
   \<and> chatForm_submit service ((run to_feedback init)\<lparr>promptValue := [CHR '' '', CHR 0x09, CHR '' '']\<rparr>)
       = (run to_feedback init)\<lparr>promptValue := [CHR '' '', CHR 0x09, CHR '' '']\<rparr>"
proof -
  have blank: "js_trim (promptValue ((run to_feedback init)\<lparr>promptValue := [CHR '' '', CHR 0x09, CHR '' '']\<rparr>)) = []"
    by code_simp
  have idle: "\<not> isLoading ((run to_feedback init)\<lparr>promptValue := [CHR '' '', CHR 0x09, CHR '' '']\<rparr>)"
    by code_simp
  have flag: "isVariationRequest ((run to_feedback init)\<lparr>promptValue := [CHR '' '', CHR 0x09, CHR '' '']\<rparr>)"
    by code_simp
  from blank idle flag blank_submit_ignored [OF blank] show ?thesis by simp
qed

end
